theory Spec2Isabelle
  imports Main "HOL-Library.Word"
begin

section \<open>The foreign runtime\<close>

text \<open>
  The type casters and the helpers of \<^verbatim>\<open>common.cpp\<close> talk to a reference-counted
  object runtime through its C interface. The part of that runtime the
  code relies on is modelled as an explicit state: a store of objects, one reference count
  per address, the single pending-error slot, the number of allocations that will still
  succeed, and the next unused address. An object whose count reaches zero is finalised by
  the runtime; finalisation is not part of this development.
\<close>

type_synonym addr = nat

text \<open>A handle is a possibly null pointer to an object: \<open>None\<close> is the invalid handle.\<close>

type_synonym handle = "addr option"

datatype pyerr = TypeError | OverflowError | IndexError | MemoryError | SystemError

text \<open>
  The objects: the empty singleton, the two booleans, integers of any size, floating-point
  numbers (a double by its 64 bits), tuples, and sequences of a user-defined class whose
  item access raises at the slots that hold \<open>None\<close>. A tuple has null slots only between
  its allocation and the stores that fill it.
\<close>

datatype pyval =
    NoneV
  | BoolV bool
  | LongV int
  | FloatV "64 word"
  | TupleV "handle list"
  | UserSeqV "handle list"

record rt =
  heap :: "addr \<Rightarrow> pyval option"
  refcnt :: "addr \<Rightarrow> int"
  err :: "pyerr option"
  avail :: nat
  fresh :: addr

definition Py_None :: addr where "Py_None = 0"
definition Py_True :: addr where "Py_True = 1"
definition Py_False :: addr where "Py_False = 2"

definition Py_INCREF :: "addr \<Rightarrow> rt \<Rightarrow> rt" where
  "Py_INCREF a s = s\<lparr>refcnt := (refcnt s)(a := refcnt s a + 1)\<rparr>"

definition Py_DECREF :: "addr \<Rightarrow> rt \<Rightarrow> rt" where
  "Py_DECREF a s = s\<lparr>refcnt := (refcnt s)(a := refcnt s a - 1)\<rparr>"

definition Py_XINCREF :: "handle \<Rightarrow> rt \<Rightarrow> rt" where
  "Py_XINCREF h s = (case h of None \<Rightarrow> s | Some a \<Rightarrow> Py_INCREF a s)"

definition Py_XDECREF :: "handle \<Rightarrow> rt \<Rightarrow> rt" where
  "Py_XDECREF h s = (case h of None \<Rightarrow> s | Some a \<Rightarrow> Py_DECREF a s)"

definition PyErr_Occurred :: "rt \<Rightarrow> bool" where
  "PyErr_Occurred s = (err s \<noteq> None)"

definition PyErr_Clear :: "rt \<Rightarrow> rt" where
  "PyErr_Clear s = s\<lparr>err := None\<rparr>"

definition PyErr_Set :: "pyerr \<Rightarrow> rt \<Rightarrow> rt" where
  "PyErr_Set e s = s\<lparr>err := Some e\<rparr>"

text \<open>
  Allocation of a new object: it fails with a pending \<open>MemoryError\<close> when the runtime has
  no memory left, and otherwise returns a new reference (count one) to an object at an
  unused address.
\<close>

definition py_new :: "pyval \<Rightarrow> rt \<Rightarrow> handle \<times> rt" where
  "py_new v s =
     (if avail s = 0 then (None, PyErr_Set MemoryError s)
      else (Some (fresh s),
            s\<lparr>heap := (heap s)(fresh s := Some v),
              refcnt := (refcnt s)(fresh s := 1),
              avail := avail s - 1,
              fresh := Suc (fresh s)\<rparr>))"

section \<open>How a call ends\<close>

text \<open>
  A call returns, throws a native failure (\<^verbatim>\<open>std::runtime_error\<close> with its message, or
  \<^verbatim>\<open>python_error\<close> wrapping the pending foreign error), terminates the process
  (\<^verbatim>\<open>abort()\<close>, with what was written to the diagnostic stream), or has undefined
  behaviour: a store through a null pointer, a read of memory that was never written.
\<close>

datatype exc = Runtime_error "8 word list" | Python_error pyerr

datatype 'a outcome = Return 'a | Throw exc | Abort string | Undefined


section \<open>Foreign object handles\<close>

text \<open>
  Modelled from the spec: the handle types (\<^verbatim>\<open>handle\<close>, \<^verbatim>\<open>object\<close>, \<^verbatim>\<open>borrow\<close>,
  \<^verbatim>\<open>steal\<close>, \<^verbatim>\<open>none\<close>), which the casters use and whose declarations are not part of
  the sources at hand. Section 4.1 of the specification: acquiring increments the count,
  releasing relinquishes the pointer without decrementing, stealing takes a pointer whose
  count was already incremented, and the end of an owning reference's life decrements.
\<close>

definition is_valid :: "handle \<Rightarrow> bool" where
  "is_valid h = (h \<noteq> None)"

definition inc_ref :: "handle \<Rightarrow> rt \<Rightarrow> handle \<times> rt" where
  "inc_ref h s = (h, Py_XINCREF h s)"

definition borrow :: "handle \<Rightarrow> rt \<Rightarrow> handle \<times> rt" where
  "borrow h s = (h, Py_XINCREF h s)"

definition steal :: "handle \<Rightarrow> rt \<Rightarrow> handle \<times> rt" where
  "steal h s = (h, s)"

definition release :: "handle \<Rightarrow> rt \<Rightarrow> handle \<times> rt" where
  "release ob s = (ob, s)"

definition object_dtor :: "handle \<Rightarrow> rt \<Rightarrow> rt" where
  "object_dtor ob s = Py_XDECREF ob s"

definition none :: "rt \<Rightarrow> handle \<times> rt" where
  "none s = borrow (Some Py_None) s"

section \<open>Ownership policies\<close>

datatype rv_policy =
    automatic
  | automatic_reference
  | take_ownership
  | copy
  | move
  | reference
  | reference_internal

section \<open>The caster macro\<close>

text \<open>
  \<^verbatim>\<open>NB_TYPE_CASTER\<close> gives a caster its value slot and the pointer overload of \<^verbatim>\<open>cast\<close>:
  a null pointer yields the empty singleton, any other pointer is dereferenced and handed
  to the caster's own \<^verbatim>\<open>cast\<close>, here the parameter \<open>cast_value\<close>. A native pointer is
  \<open>None\<close> when null and \<open>Some v\<close> when it points at the value \<open>v\<close>.
\<close>

definition nb_type_caster_cast ::
  "('a \<Rightarrow> rv_policy \<Rightarrow> handle \<Rightarrow> rt \<Rightarrow> (handle \<times> rt) outcome) \<Rightarrow>
   'a option \<Rightarrow> rv_policy \<Rightarrow> handle \<Rightarrow> rt \<Rightarrow> (handle \<times> rt) outcome" where
  "nb_type_caster_cast cast_value p policy parent s =
     (case p of
        None \<Rightarrow> (case none s of (ob, s1) \<Rightarrow> Return (release ob s1))
      | Some v \<Rightarrow> cast_value v policy parent s)"

section \<open>The null and boolean casters\<close>

definition nullptr_load :: "handle \<Rightarrow> bool \<Rightarrow> rt \<Rightarrow> unit option \<times> rt" where
  "nullptr_load src convert s =
     (if is_valid src \<and> src = Some Py_None then (Some (), s) else (None, s))"

text \<open>
  \<^verbatim>\<open>none().inc_ref()\<close>: the temporary owning reference made by \<^verbatim>\<open>none()\<close> is acquired
  once more for the handle that is returned, and dies at the end of the statement.
\<close>

definition nullptr_cast :: "unit \<Rightarrow> rv_policy \<Rightarrow> handle \<Rightarrow> rt \<Rightarrow> (handle \<times> rt) outcome" where
  "nullptr_cast src policy parent s =
     (case none s of (ob, s1) \<Rightarrow>
        (case inc_ref ob s1 of (h, s2) \<Rightarrow> Return (h, object_dtor ob s2)))"

definition bool_load :: "handle \<Rightarrow> bool \<Rightarrow> rt \<Rightarrow> bool option \<times> rt" where
  "bool_load src convert s =
     (if src = Some Py_True then (Some True, s)
      else if src = Some Py_False then (Some False, s)
      else (None, s))"

definition bool_cast :: "bool \<Rightarrow> rv_policy \<Rightarrow> handle \<Rightarrow> rt \<Rightarrow> (handle \<times> rt) outcome" where
  "bool_cast src policy parent s =
     Return (inc_ref (Some (if src then Py_True else Py_False)) s)"

section \<open>The caster of handle subtypes\<close>

text \<open>
  A value that is already a foreign object is passed through. \<^verbatim>\<open>isinstance<T>\<close>, the
  run-time type check of the target handle type, is a parameter; \<open>owning\<close> says whether
  \<^verbatim>\<open>T\<close> is an owning handle type, whose value slot acquires a reference, or the plain
  \<^verbatim>\<open>handle\<close>.
\<close>

definition handle_load ::
  "(handle \<Rightarrow> rt \<Rightarrow> bool) \<Rightarrow> bool \<Rightarrow> handle \<Rightarrow> bool \<Rightarrow> rt \<Rightarrow> handle option \<times> rt" where
  "handle_load isinstance owning src convert s =
     (if \<not> isinstance src s then (None, s)
      else if \<not> owning then (Some src, s)
      else (case borrow src s of (v, s1) \<Rightarrow> (Some v, s1)))"

definition handle_cast :: "handle \<Rightarrow> rv_policy \<Rightarrow> handle \<Rightarrow> rt \<Rightarrow> (handle \<times> rt) outcome" where
  "handle_cast src policy parent s = Return (inc_ref src s)"

section \<open>The numeric caster\<close>

subsection \<open>Fixed-width integer types\<close>

text \<open>
  An integral type \<^verbatim>\<open>T\<close> is given by its signedness and \<^verbatim>\<open>sizeof(T)\<close> in bytes (1, 2,
  4 or 8, and 16 for the 128-bit integers that some compilers count among the arithmetic
  types); the platform by \<^verbatim>\<open>sizeof(long)\<close>, the parameter \<open>L\<close> below
  (\<^verbatim>\<open>sizeof(long long)\<close> is 8).
  Values are mathematical integers, and a C conversion \<^verbatim>\<open>(T) x\<close> keeps the low bits of
  \<open>x\<close>: the value itself when \<^verbatim>\<open>T\<close> can represent it, wrapped around otherwise.
\<close>

record itype =
  is_signed :: bool
  size_of :: nat

definition c_conv :: "bool \<Rightarrow> nat \<Rightarrow> int \<Rightarrow> int" where
  "c_conv sg sz x = (if sg then signed_take_bit (8 * sz - 1) x else take_bit (8 * sz) x)"

definition in_range :: "bool \<Rightarrow> nat \<Rightarrow> int \<Rightarrow> bool" where
  "in_range sg sz x =
     (if sg then - (2 ^ (8 * sz - 1)) \<le> x \<and> x < 2 ^ (8 * sz - 1)
      else 0 \<le> x \<and> x < 2 ^ (8 * sz))"

definition valid_itype :: "itype \<Rightarrow> bool" where
  "valid_itype T =
     (size_of T = 1 \<or> size_of T = 2 \<or> size_of T = 4 \<or> size_of T = 8 \<or> size_of T = 16)"

definition valid_long :: "nat \<Rightarrow> bool" where
  "valid_long L = (L = 4 \<or> L = 8)"

text \<open>
  \<^verbatim>\<open>T0\<close> is \<^verbatim>\<open>long\<close> when \<^verbatim>\<open>T\<close> fits in it and \<^verbatim>\<open>long long\<close> otherwise; the intermediate
  type \<^verbatim>\<open>Tp\<close> of an integral \<^verbatim>\<open>T\<close> is \<^verbatim>\<open>T0\<close> with the signedness of \<^verbatim>\<open>T\<close>. It is at
  least as wide as \<^verbatim>\<open>T\<close> unless \<^verbatim>\<open>T\<close> has 16 bytes.
\<close>

definition sizeof_Tp :: "nat \<Rightarrow> itype \<Rightarrow> nat" where
  "sizeof_Tp L T = (if size_of T \<le> L then L else 8)"

subsection \<open>Numbers in the foreign runtime\<close>

text \<open>
  The integer conversions of the runtime accept integers and booleans (a boolean is an
  integer there) and raise \<open>TypeError\<close> on every other object; on a value the C type
  cannot hold they raise \<open>OverflowError\<close>. On an error they return \<open>-1\<close> converted to
  the result type.
\<close>

definition long_value :: "rt \<Rightarrow> addr \<Rightarrow> int option" where
  "long_value s p =
     (case heap s p of
        Some (LongV n) \<Rightarrow> Some n
      | Some (BoolV b) \<Rightarrow> Some (if b then 1 else 0)
      | _ \<Rightarrow> None)"

definition PyLong_Check :: "rt \<Rightarrow> addr \<Rightarrow> bool" where
  "PyLong_Check s p = (long_value s p \<noteq> None)"

definition PyFloat_Check :: "rt \<Rightarrow> addr \<Rightarrow> bool" where
  "PyFloat_Check s p = (case heap s p of Some (FloatV d) \<Rightarrow> True | _ \<Rightarrow> False)"

definition pylong_as :: "bool \<Rightarrow> nat \<Rightarrow> addr \<Rightarrow> rt \<Rightarrow> int \<times> rt" where
  "pylong_as sg sz p s =
     (case long_value s p of
        None \<Rightarrow> (c_conv sg sz (- 1), PyErr_Set TypeError s)
      | Some n \<Rightarrow>
          if in_range sg sz n then (n, s)
          else (c_conv sg sz (- 1), PyErr_Set OverflowError s))"

definition PyLong_AsLong :: "nat \<Rightarrow> addr \<Rightarrow> rt \<Rightarrow> int \<times> rt" where
  "PyLong_AsLong L = pylong_as True L"

definition PyLong_AsUnsignedLong :: "nat \<Rightarrow> addr \<Rightarrow> rt \<Rightarrow> int \<times> rt" where
  "PyLong_AsUnsignedLong L = pylong_as False L"

definition PyLong_AsLongLong :: "addr \<Rightarrow> rt \<Rightarrow> int \<times> rt" where
  "PyLong_AsLongLong = pylong_as True 8"

definition PyLong_AsUnsignedLongLong :: "addr \<Rightarrow> rt \<Rightarrow> int \<times> rt" where
  "PyLong_AsUnsignedLongLong = pylong_as False 8"

definition PyLong_FromLong :: "int \<Rightarrow> rt \<Rightarrow> handle \<times> rt" where
  "PyLong_FromLong x = py_new (LongV x)"

definition PyLong_FromUnsignedLong :: "int \<Rightarrow> rt \<Rightarrow> handle \<times> rt" where
  "PyLong_FromUnsignedLong x = py_new (LongV x)"

definition PyLong_FromLongLong :: "int \<Rightarrow> rt \<Rightarrow> handle \<times> rt" where
  "PyLong_FromLongLong x = py_new (LongV x)"

definition PyLong_FromUnsignedLongLong :: "int \<Rightarrow> rt \<Rightarrow> handle \<times> rt" where
  "PyLong_FromUnsignedLongLong x = py_new (LongV x)"

text \<open>
  A double is its 64 bits; \<open>-1.0\<close> has one encoding, and the comparison \<^verbatim>\<open>x == -1.0\<close>
  holds for that encoding only. The runtime converts an integer object to a double by
  rounding, or raises \<open>OverflowError\<close> when it is too large: the rounding is the parameter
  \<open>of_long\<close>.
\<close>

definition dbl_minus_one :: "64 word" where
  "dbl_minus_one = 0xBFF0000000000000"

definition PyFloat_AsDouble :: "(int \<Rightarrow> 64 word option) \<Rightarrow> addr \<Rightarrow> rt \<Rightarrow> 64 word \<times> rt" where
  "PyFloat_AsDouble of_long p s =
     (case heap s p of
        Some (FloatV d) \<Rightarrow> (d, s)
      | _ \<Rightarrow>
          (case long_value s p of
             None \<Rightarrow> (dbl_minus_one, PyErr_Set TypeError s)
           | Some n \<Rightarrow>
               (case of_long n of
                  None \<Rightarrow> (dbl_minus_one, PyErr_Set OverflowError s)
                | Some d \<Rightarrow> (d, s))))"

definition PyFloat_FromDouble :: "64 word \<Rightarrow> rt \<Rightarrow> handle \<times> rt" where
  "PyFloat_FromDouble d = py_new (FloatV d)"

subsection \<open>The process-terminating failure\<close>

text \<open>
  \<^verbatim>\<open>fail\<close> writes its prefix and the message to the diagnostic stream and aborts. Every
  call in the sources passes a literal with no conversion specification.
\<close>

definition fail :: "string \<Rightarrow> 'a outcome" where
  "fail msg = Abort (''Critical nanobind error: '' @ msg)"

subsection \<open>load and cast\<close>

text \<open>
  \<^verbatim>\<open>if constexpr\<close> selects one body for the floating-point types and one for the integral
  types, so each is a function of its own. For an integral \<^verbatim>\<open>T\<close> the value slot holds an
  integer in the range of \<^verbatim>\<open>T\<close>; \<open>None\<close> in the result means that load returned false
  and left the slot alone.
\<close>

definition numeric_load_int :: "nat \<Rightarrow> itype \<Rightarrow> handle \<Rightarrow> bool \<Rightarrow> rt \<Rightarrow> int option \<times> rt" where
  "numeric_load_int L T src convert s =
     (case src of
        None \<Rightarrow> (None, s)
      | Some p \<Rightarrow>
          if \<not> convert \<and> \<not> PyLong_Check s p then (None, s)
          else
            (case (if \<not> is_signed T
                   then (if size_of T \<le> L then PyLong_AsUnsignedLong L p s
                         else PyLong_AsUnsignedLongLong p s)
                   else (if size_of T \<le> L then PyLong_AsLong L p s
                         else PyLong_AsLongLong p s)) of
               (value_p, s1) \<Rightarrow>
                 if sizeof_Tp L T \<noteq> size_of T \<and>
                    value_p \<noteq> c_conv (is_signed T) (sizeof_Tp L T)
                                 (c_conv (is_signed T) (size_of T) value_p)
                 then (None, s1)
                 else if value_p = c_conv (is_signed T) (sizeof_Tp L T) (- 1) \<and>
                         PyErr_Occurred s1
                 then (None, PyErr_Clear s1)
                 else (Some (c_conv (is_signed T) (size_of T) value_p), s1)))"

definition numeric_cast_int ::
  "nat \<Rightarrow> itype \<Rightarrow> int \<Rightarrow> rv_policy \<Rightarrow> handle \<Rightarrow> rt \<Rightarrow> (handle \<times> rt) outcome" where
  "numeric_cast_int L T src policy parent s =
     (if \<not> is_signed T \<and> size_of T \<le> L
      then Return (PyLong_FromUnsignedLong (c_conv False L src) s)
      else if is_signed T \<and> size_of T \<le> L
      then Return (PyLong_FromLong (c_conv True L src) s)
      else if \<not> is_signed T
      then Return (PyLong_FromUnsignedLongLong (c_conv False 8 src) s)
      else if is_signed T
      then Return (PyLong_FromLongLong (c_conv True 8 src) s)
      else fail ''invalid number cast'')"

text \<open>
  For a floating-point \<^verbatim>\<open>T\<close> the intermediate type is \<^verbatim>\<open>double\<close>; \<open>narrow\<close> is the
  conversion \<^verbatim>\<open>(T) value_p\<close> and \<open>widen\<close> the conversion \<^verbatim>\<open>(double) src\<close>.
\<close>

definition numeric_load_float ::
  "(64 word \<Rightarrow> 'f) \<Rightarrow> (int \<Rightarrow> 64 word option) \<Rightarrow> handle \<Rightarrow> bool \<Rightarrow> rt \<Rightarrow> 'f option \<times> rt" where
  "numeric_load_float narrow of_long src convert s =
     (case src of
        None \<Rightarrow> (None, s)
      | Some p \<Rightarrow>
          if \<not> convert \<and> \<not> PyFloat_Check s p then (None, s)
          else
            (case PyFloat_AsDouble of_long p s of
               (value_p, s1) \<Rightarrow>
                 if value_p = dbl_minus_one \<and> PyErr_Occurred s1
                 then (None, PyErr_Clear s1)
                 else (Some (narrow value_p), s1)))"

definition numeric_cast_float ::
  "('f \<Rightarrow> 64 word) \<Rightarrow> 'f \<Rightarrow> rv_policy \<Rightarrow> handle \<Rightarrow> rt \<Rightarrow> (handle \<times> rt) outcome" where
  "numeric_cast_float widen src policy parent s = Return (PyFloat_FromDouble (widen src) s)"

section \<open>The generic caster\<close>

text \<open>
  The fallback caster defers to the type registry: \<^verbatim>\<open>detail::type_put\<close> and
  \<^verbatim>\<open>detail::type_get\<close> are its entry points and are parameters here. \<^verbatim>\<open>cast\<close> has one
  overload for a pointer, one for an lvalue reference and one for an rvalue reference;
  \<open>tid\<close> stands for \<^verbatim>\<open>&typeid(T)\<close> and \<open>p\<close> for the address of the value.
\<close>

definition generic_load :: "('t \<Rightarrow> handle \<Rightarrow> bool \<Rightarrow> 'r) \<Rightarrow> 't \<Rightarrow> handle \<Rightarrow> bool \<Rightarrow> 'r" where
  "generic_load type_get tid src convert = type_get tid src convert"

definition cast_impl ::
  "('t \<Rightarrow> 'p \<Rightarrow> rv_policy \<Rightarrow> handle \<Rightarrow> 'r) \<Rightarrow> 't \<Rightarrow> 'p \<Rightarrow> rv_policy \<Rightarrow> handle \<Rightarrow> 'r" where
  "cast_impl type_put tid p policy parent = type_put tid p policy parent"

definition generic_cast_pointer ::
  "('t \<Rightarrow> 'p \<Rightarrow> rv_policy \<Rightarrow> handle \<Rightarrow> 'r) \<Rightarrow> 't \<Rightarrow> 'p \<Rightarrow> rv_policy \<Rightarrow> handle \<Rightarrow> 'r" where
  "generic_cast_pointer type_put tid p policy parent =
     cast_impl type_put tid p
       (if policy = automatic then take_ownership
        else if policy = automatic_reference then reference
        else policy)
       parent"

definition generic_cast_lvalue ::
  "('t \<Rightarrow> 'p \<Rightarrow> rv_policy \<Rightarrow> handle \<Rightarrow> 'r) \<Rightarrow> 't \<Rightarrow> 'p \<Rightarrow> rv_policy \<Rightarrow> handle \<Rightarrow> 'r" where
  "generic_cast_lvalue type_put tid p policy parent =
     cast_impl type_put tid p
       (if policy = automatic \<or> policy = automatic_reference then copy else policy)
       parent"

definition generic_cast_rvalue ::
  "('t \<Rightarrow> 'p \<Rightarrow> rv_policy \<Rightarrow> handle \<Rightarrow> 'r) \<Rightarrow> 't \<Rightarrow> 'p \<Rightarrow> rv_policy \<Rightarrow> handle \<Rightarrow> 'r" where
  "generic_cast_rvalue type_put tid p policy parent = cast_impl type_put tid p move parent"

text \<open>
  The shape of the input selects the overload. The second definition is the table of the
  specification, in its words: \<open>automatic\<close> becomes \<open>take_ownership\<close>, \<open>copy\<close> or \<open>move\<close>
  by the shape, \<open>automatic_reference\<close> becomes \<open>reference\<close>, and every other policy is
  handed on as it is.
\<close>

datatype shape = Pointer_shaped | Lvalue_shaped | Rvalue_shaped

definition generic_cast ::
  "shape \<Rightarrow> ('t \<Rightarrow> 'p \<Rightarrow> rv_policy \<Rightarrow> handle \<Rightarrow> 'r) \<Rightarrow> 't \<Rightarrow> 'p \<Rightarrow> rv_policy \<Rightarrow> handle \<Rightarrow> 'r" where
  "generic_cast sh =
     (case sh of
        Pointer_shaped \<Rightarrow> generic_cast_pointer
      | Lvalue_shaped \<Rightarrow> generic_cast_lvalue
      | Rvalue_shaped \<Rightarrow> generic_cast_rvalue)"

definition spec_normalized_policy :: "shape \<Rightarrow> rv_policy \<Rightarrow> rv_policy" where
  "spec_normalized_policy sh policy =
     (if policy = automatic
      then (case sh of
              Pointer_shaped \<Rightarrow> take_ownership
            | Lvalue_shaped \<Rightarrow> copy
            | Rvalue_shaped \<Rightarrow> move)
      else if policy = automatic_reference then reference
      else policy)"

text \<open>What the code hands to the registry, as a table.\<close>

definition code_normalized_policy :: "shape \<Rightarrow> rv_policy \<Rightarrow> rv_policy" where
  "code_normalized_policy sh policy =
     (case sh of
        Pointer_shaped \<Rightarrow>
          (case policy of
             automatic \<Rightarrow> take_ownership
           | automatic_reference \<Rightarrow> reference
           | take_ownership \<Rightarrow> take_ownership
           | copy \<Rightarrow> copy
           | move \<Rightarrow> move
           | reference \<Rightarrow> reference
           | reference_internal \<Rightarrow> reference_internal)
      | Lvalue_shaped \<Rightarrow>
          (case policy of
             automatic \<Rightarrow> copy
           | automatic_reference \<Rightarrow> copy
           | take_ownership \<Rightarrow> take_ownership
           | copy \<Rightarrow> copy
           | move \<Rightarrow> move
           | reference \<Rightarrow> reference
           | reference_internal \<Rightarrow> reference_internal)
      | Rvalue_shaped \<Rightarrow> move)"

section \<open>Sequences in the foreign runtime\<close>

text \<open>
  A tuple and a sequence of a user-defined class have a length and items; no other object
  of the model is a sequence. Item access returns a new reference. It raises at an index
  out of range and at a slot that holds no object (for a user-defined class: its item
  method raised).
\<close>

definition sequence_items :: "rt \<Rightarrow> addr \<Rightarrow> handle list option" where
  "sequence_items s p =
     (case heap s p of
        Some (TupleV xs) \<Rightarrow> Some xs
      | Some (UserSeqV xs) \<Rightarrow> Some xs
      | _ \<Rightarrow> None)"

definition PySequence_Size :: "handle \<Rightarrow> rt \<Rightarrow> int \<times> rt" where
  "PySequence_Size seq s =
     (case seq of
        None \<Rightarrow> (- 1, PyErr_Set SystemError s)
      | Some p \<Rightarrow>
          (case sequence_items s p of
             None \<Rightarrow> (- 1, PyErr_Set TypeError s)
           | Some xs \<Rightarrow> (int (length xs), s)))"

definition PySequence_GetItem :: "handle \<Rightarrow> nat \<Rightarrow> rt \<Rightarrow> handle \<times> rt" where
  "PySequence_GetItem seq i s =
     (case seq of
        None \<Rightarrow> (None, PyErr_Set SystemError s)
      | Some p \<Rightarrow>
          (case sequence_items s p of
             None \<Rightarrow> (None, PyErr_Set TypeError s)
           | Some xs \<Rightarrow>
               if i < length xs
               then (case xs ! i of
                       None \<Rightarrow> (None, PyErr_Set IndexError s)
                     | Some a \<Rightarrow> (Some a, Py_INCREF a s))
               else (None, PyErr_Set IndexError s)))"

text \<open>
  \<^verbatim>\<open>seq_size_fetch\<close>: the loop over \<open>i\<close> is the recursion below; \<open>out\<close> holds the
  references fetched so far, \<open>out[0]\<close> to \<open>out[i-1]\<close>, which the inner loop releases in
  that order when item \<open>i\<close> cannot be fetched.
\<close>

function seq_size_fetch_loop ::
  "handle \<Rightarrow> nat \<Rightarrow> nat \<Rightarrow> addr list \<Rightarrow> rt \<Rightarrow> addr list option \<times> rt" where
  "seq_size_fetch_loop seq n i out s =
     (if i < n then
        (case PySequence_GetItem seq i s of
           (None, s1) \<Rightarrow> (None, fold Py_DECREF out s1)
         | (Some x, s1) \<Rightarrow> seq_size_fetch_loop seq n (Suc i) (out @ [x]) s1)
      else (Some out, s))"
  by pat_completeness auto
termination
  by (relation "measure (\<lambda>(seq, n, i, out, s). n - i)") auto

definition seq_size_fetch :: "handle \<Rightarrow> nat \<Rightarrow> rt \<Rightarrow> addr list option \<times> rt" where
  "seq_size_fetch seq n s =
     (case PySequence_Size seq s of
        (rv, s0) \<Rightarrow>
          (case (if rv = - 1 then PyErr_Clear s0 else s0) of
             s1 \<Rightarrow> if rv \<noteq> int n then (None, s1) else seq_size_fetch_loop seq n 0 [] s1))"

text \<open>
  \<^verbatim>\<open>PyTuple_New\<close> allocates a tuple of null slots; \<^verbatim>\<open>PyTuple_SET_ITEM\<close> stores into a
  slot and takes over the reference it is given.
\<close>

definition PyTuple_New :: "nat \<Rightarrow> rt \<Rightarrow> handle \<times> rt" where
  "PyTuple_New n = py_new (TupleV (replicate n None))"

definition PyTuple_SET_ITEM :: "addr \<Rightarrow> nat \<Rightarrow> handle \<Rightarrow> rt \<Rightarrow> rt" where
  "PyTuple_SET_ITEM r i x s =
     (case heap s r of
        Some (TupleV xs) \<Rightarrow> s\<lparr>heap := (heap s)(r := Some (TupleV (xs[i := x])))\<rparr>
      | _ \<Rightarrow> s)"

section \<open>The pair caster\<close>

text \<open>
  The casters \<^verbatim>\<open>C1\<close> and \<^verbatim>\<open>C2\<close> of the two components are template parameters: here
  their \<^verbatim>\<open>load\<close> and \<^verbatim>\<open>cast\<close> are function parameters. The label \<^verbatim>\<open>fail\<close> of
  \<^verbatim>\<open>load\<close> releases both fetched references; the path that returns true does not.
\<close>

definition pair_load ::
  "(handle \<Rightarrow> bool \<Rightarrow> rt \<Rightarrow> 'a option \<times> rt) \<Rightarrow> (handle \<Rightarrow> bool \<Rightarrow> rt \<Rightarrow> 'b option \<times> rt) \<Rightarrow>
   handle \<Rightarrow> bool \<Rightarrow> rt \<Rightarrow> ('a \<times> 'b) option \<times> rt" where
  "pair_load c1_load c2_load src convert s =
     (case seq_size_fetch src 2 s of
        (None, s0) \<Rightarrow> (None, s0)
      | (Some out, s0) \<Rightarrow>
          (case c1_load (Some (out ! 0)) convert s0 of
             (None, s1) \<Rightarrow> (None, Py_DECREF (out ! 1) (Py_DECREF (out ! 0) s1))
           | (Some v1, s1) \<Rightarrow>
               (case c2_load (Some (out ! 1)) convert s1 of
                  (None, s2) \<Rightarrow> (None, Py_DECREF (out ! 1) (Py_DECREF (out ! 0) s2))
                | (Some v2, s2) \<Rightarrow> (Some (v1, v2), s2))))"

text \<open>
  In \<^verbatim>\<open>cast\<close>, \<^verbatim>\<open>o1\<close> and \<^verbatim>\<open>o2\<close> are owning references: leaving the function ends
  their lives, the later one first. The result of \<^verbatim>\<open>PyTuple_New\<close> is used unchecked, so a
  failed allocation is a store through a null pointer. A component cast that does not
  return ends the pair's cast the same way.
\<close>

definition pair_cast ::
  "('a \<Rightarrow> rv_policy \<Rightarrow> handle \<Rightarrow> rt \<Rightarrow> (handle \<times> rt) outcome) \<Rightarrow>
   ('b \<Rightarrow> rv_policy \<Rightarrow> handle \<Rightarrow> rt \<Rightarrow> (handle \<times> rt) outcome) \<Rightarrow>
   'a \<times> 'b \<Rightarrow> rv_policy \<Rightarrow> handle \<Rightarrow> rt \<Rightarrow> (handle \<times> rt) outcome" where
  "pair_cast c1_cast c2_cast v policy parent s =
     (case c1_cast (fst v) policy parent s of
        Return (h1, s1) \<Rightarrow>
          (case steal h1 s1 of
             (o1, s2) \<Rightarrow>
               if \<not> is_valid o1 then Return (None, object_dtor o1 s2)
               else
                 (case c2_cast (snd v) policy parent s2 of
                    Return (h2, s3) \<Rightarrow>
                      (case steal h2 s3 of
                         (o2, s4) \<Rightarrow>
                           if \<not> is_valid o2
                           then Return (None, object_dtor o1 (object_dtor o2 s4))
                           else
                             (case PyTuple_New 2 s4 of
                                (None, s5) \<Rightarrow> Undefined
                              | (Some r, s5) \<Rightarrow>
                                  (case release o1 s5 of
                                     (p1, s6) \<Rightarrow>
                                       (case release o2 (PyTuple_SET_ITEM r 0 p1 s6) of
                                          (p2, s7) \<Rightarrow>
                                            Return (Some r, PyTuple_SET_ITEM r 1 p2 s7)))))
                  | r2 \<Rightarrow> r2))
      | r1 \<Rightarrow> r1)"

section \<open>The error bridge\<close>

text \<open>
  \<^verbatim>\<open>raise\<close> formats its message twice at most. The model takes the text that the format
  and its arguments expand to, \<open>out\<close>, as bytes. \<^verbatim>\<open>vsnprintf\<close> returns an \<^verbatim>\<open>int\<close>: with a
  buffer of \<open>n\<close> bytes it stores at most \<open>n - 1\<close> bytes of the text and a terminating zero
  (nothing when \<open>n\<close> is zero) and returns the length of the whole text; when that length
  is above \<^verbatim>\<open>INT_MAX\<close> it cannot return it and returns a negative value, \<open>-1\<close>, and a C
  library may refuse a buffer size above \<^verbatim>\<open>INT_MAX\<close> the same way (POSIX); what the buffer
  holds is then not defined, \<open>None\<close> below. Other output errors are not modelled.
\<close>

definition INT_MAX :: nat where
  "INT_MAX = 2147483647"

definition vsnprintf :: "nat \<Rightarrow> 8 word list \<Rightarrow> 8 word list option \<times> int" where
  "vsnprintf n out =
     (if INT_MAX < n \<or> INT_MAX < length out then (None, - 1)
      else ((if n = 0 then None else Some (take (n - 1) out @ [0])), int (length out)))"

definition c_str :: "8 word list \<Rightarrow> 8 word list" where
  "c_str buf = takeWhile (\<lambda>c. c \<noteq> 0) buf"

definition bytes :: "string \<Rightarrow> 8 word list" where
  "bytes msg = map (\<lambda>c. of_nat (of_char c)) msg"

text \<open>
  A \<^verbatim>\<open>std::runtime_error\<close> built from a buffer carries its bytes up to the first zero;
  building it from a buffer whose contents are not defined is undefined behaviour.
\<close>

definition throw_runtime_error :: "8 word list option \<Rightarrow> 'a outcome" where
  "throw_runtime_error buf =
     (case buf of None \<Rightarrow> Undefined | Some b \<Rightarrow> Throw (Runtime_error (c_str b)))"

text \<open>
  In \<^verbatim>\<open>raise\<close> the result of \<^verbatim>\<open>vsnprintf\<close> is stored in a \<^verbatim>\<open>size_t\<close>, here of 64 bits:
  a negative result becomes a huge size, and \<^verbatim>\<open>size + 1\<close> wraps around. \<open>malloc_ok\<close> says
  whether the allocation of the second buffer succeeds.
\<close>

definition raise :: "8 word list \<Rightarrow> bool \<Rightarrow> 'a outcome" where
  "raise out malloc_ok =
     (case vsnprintf 512 out of
        (buf, r) \<Rightarrow>
          (case (word_of_int r :: 64 word) of
             sz \<Rightarrow>
               if sz < 512 then throw_runtime_error buf
               else if \<not> malloc_ok then Abort ''nb::detail::raise(): out of memory!''
               else (case vsnprintf (unat (sz + 1)) out of
                       (ptr, r2) \<Rightarrow> throw_runtime_error ptr)))"


section \<open>The object protocol shim\<close>
























section \<open>Reference-count bookkeeping\<close>

text \<open>
  One more and one fewer reference to an address, on the table of counts; and the loads
  that leave every count as they found it, whatever they are given.
\<close>

definition acquire :: "addr \<Rightarrow> (addr \<Rightarrow> int) \<Rightarrow> (addr \<Rightarrow> int)" where
  "acquire a f = f(a := f a + 1)"

definition relinquish :: "addr \<Rightarrow> (addr \<Rightarrow> int) \<Rightarrow> (addr \<Rightarrow> int)" where
  "relinquish a f = f(a := f a - 1)"

definition keeps_refcounts :: "(handle \<Rightarrow> bool \<Rightarrow> rt \<Rightarrow> 'a option \<times> rt) \<Rightarrow> bool" where
  "keeps_refcounts ld = (\<forall>h c t. refcnt (snd (ld h c t)) = refcnt t)"


section \<open>Sample registry, runtime states and types\<close>

text \<open>A registry entry point that returns the policy it is handed.\<close>

definition echo_policy :: "nat \<Rightarrow> nat \<Rightarrow> rv_policy \<Rightarrow> handle \<Rightarrow> rv_policy" where
  "echo_policy tid p policy parent = policy"

text \<open>
  A runtime that holds the three singletons and can still allocate, and two integral types,
  for the concrete runs below.
\<close>

definition rt0 :: rt where
  "rt0 = \<lparr>heap = [Py_None \<mapsto> NoneV, Py_True \<mapsto> BoolV True, Py_False \<mapsto> BoolV False],
          refcnt = (\<lambda>a. 0)(Py_None := 1, Py_True := 1, Py_False := 1),
          err = None, avail = 8, fresh = 3\<rparr>"

definition int8_t :: itype where "int8_t = \<lparr>is_signed = True, size_of = 1\<rparr>"

definition uint32_t :: itype where "uint32_t = \<lparr>is_signed = False, size_of = 4\<rparr>"

text \<open>
  A runtime with the integer 7 at address 3, the tuple \<open>(7, None)\<close> at address 4 and, at
  address 5, a user-defined sequence of length two whose second item cannot be fetched.
\<close>

definition rt_pair :: rt where
  "rt_pair = rt0\<lparr>heap := (heap rt0)(3 := Some (LongV 7),
                                    4 := Some (TupleV [Some 3, Some Py_None]),
                                    5 := Some (UserSeqV [Some 3, None])),
               refcnt := (refcnt rt0)(3 := 2, 4 := 1, 5 := 1, Py_None := 2),
               fresh := 6\<rparr>"



section \<open>Properties\<close>

subsection \<open>Strictness of the boolean and null casters\<close>

lemma singletons_distinct:
  "Py_None \<noteq> Py_True" "Py_None \<noteq> Py_False" "Py_True \<noteq> Py_False"
  by (simp_all add: Py_None_def Py_True_def Py_False_def)

lemma bool_load_succeeds_iff:
  "(fst (bool_load src convert s) \<noteq> None) = (src = Some Py_True \<or> src = Some Py_False)"
  by (auto simp add: bool_load_def)

lemma bool_load_singletons:
  "bool_load (Some Py_True) convert s = (Some True, s)"
  "bool_load (Some Py_False) convert s = (Some False, s)"
  using singletons_distinct by (simp_all add: bool_load_def)

lemma nullptr_load_succeeds_iff:
  "(fst (nullptr_load src convert s) \<noteq> None) = (src = Some Py_None)"
  "snd (nullptr_load src convert s) = s"
  by (auto simp add: nullptr_load_def is_valid_def)

lemma bool_cast_singleton:
  "bool_cast b policy parent s =
     Return (Some (if b then Py_True else Py_False),
             Py_INCREF (if b then Py_True else Py_False) s)"
  by (simp add: bool_cast_def inc_ref_def Py_XINCREF_def)

lemma Py_INCREF_twice_DECREF:
  "Py_DECREF a (Py_INCREF a (Py_INCREF a s)) = Py_INCREF a s"
  by (simp add: Py_INCREF_def Py_DECREF_def add.commute)

lemma nullptr_cast_singleton:
  "nullptr_cast u policy parent s = Return (Some Py_None, Py_INCREF Py_None s)"
  by (simp add: nullptr_cast_def none_def borrow_def inc_ref_def object_dtor_def
      Py_XINCREF_def Py_XDECREF_def Py_INCREF_twice_DECREF)

lemma refcnt_Py_INCREF: "refcnt (Py_INCREF a s) a = refcnt s a + 1"
  by (simp add: Py_INCREF_def)

text \<open>
  C8. The boolean caster loads exactly the two boolean singletons, storing the native
  boolean each stands for, and nothing else (no truthiness coercion); the null caster loads
  exactly the empty singleton; the cast of either caster returns the singleton, whose
  reference count has gone up by one, and changes nothing else in the runtime.
\<close>

theorem bool_null_casters_strict:
  "(fst (bool_load src convert s) \<noteq> None) = (src = Some Py_True \<or> src = Some Py_False)
   \<and> bool_load (Some Py_True) convert s = (Some True, s)
   \<and> bool_load (Some Py_False) convert s = (Some False, s)
   \<and> (fst (nullptr_load src convert s) \<noteq> None) = (src = Some Py_None)
   \<and> snd (nullptr_load src convert s) = s
   \<and> bool_cast b policy parent s =
       Return (Some (if b then Py_True else Py_False),
               Py_INCREF (if b then Py_True else Py_False) s)
   \<and> nullptr_cast u policy parent s = Return (Some Py_None, Py_INCREF Py_None s)
   \<and> refcnt (Py_INCREF a s) a = refcnt s a + 1"
  using bool_load_succeeds_iff [of src convert s] bool_load_singletons [of convert s]
    nullptr_load_succeeds_iff [of src convert s] bool_cast_singleton [of b policy parent s]
    nullptr_cast_singleton [of u policy parent s] refcnt_Py_INCREF [of a s]
  by blast

subsection \<open>The pointer overload at a null pointer\<close>

text \<open>
  C10. Whatever the caster behind the macro, whatever the policy and the parent, the pointer
  overload of cast at a null native pointer returns a valid handle to the empty singleton
  that owns one more reference to it: the released owning reference of \<^verbatim>\<open>none()\<close>.
\<close>

theorem cast_null_pointer_returns_none:
  "nb_type_caster_cast cast_value None policy parent s =
     Return (Some Py_None, Py_INCREF Py_None s)
   \<and> is_valid (Some Py_None)"
  by (simp add: nb_type_caster_cast_def none_def borrow_def release_def Py_XINCREF_def
      is_valid_def)

subsection \<open>Policy normalisation of the generic caster\<close>

text \<open>
  C1, as stated, fails: an lvalue cast with \<open>automatic_reference\<close> hands \<open>copy\<close> to
  the registry, where the table of the specification has \<open>reference\<close>. The registry used
  here returns the policy it was given.
\<close>

theorem generic_cast_policy_counterexample:
  "generic_cast Lvalue_shaped echo_policy 0 0 automatic_reference None = copy
   \<and> spec_normalized_policy Lvalue_shaped automatic_reference = reference
   \<and> generic_cast Lvalue_shaped echo_policy 0 0 automatic_reference None
       \<noteq> spec_normalized_policy Lvalue_shaped automatic_reference"
  by (simp add: generic_cast_def generic_cast_lvalue_def cast_impl_def
      spec_normalized_policy_def echo_policy_def)

text \<open>
  C1, amended. For every shape, policy, registry and argument, \<^verbatim>\<open>cast\<close> is the registry
  call with the policy of this table: for a pointer, \<open>automatic\<close> becomes
  \<open>take_ownership\<close> and \<open>automatic_reference\<close> becomes \<open>reference\<close>; for an lvalue, both
  become \<open>copy\<close>; for an rvalue every policy, explicit ones included, is replaced by
  \<open>move\<close>; every other policy of a pointer or an lvalue is handed on unchanged.
\<close>

theorem generic_cast_policy_table:
  "generic_cast sh type_put tid p policy parent =
     type_put tid p (code_normalized_policy sh policy) parent"
  by (cases sh; cases policy)
    (simp_all add: generic_cast_def generic_cast_pointer_def generic_cast_lvalue_def
      generic_cast_rvalue_def cast_impl_def code_normalized_policy_def)

subsection \<open>Integer conversions\<close>

lemma c_conv_in_range: "0 < sz \<Longrightarrow> in_range sg sz (c_conv sg sz x)"
  using signed_take_bit_int_greater_eq_minus_exp [of "8 * sz - 1" x]
    signed_take_bit_int_less_exp [of "8 * sz - 1" x]
  by (simp add: in_range_def c_conv_def)

lemma c_conv_id_iff: "0 < sz \<Longrightarrow> (c_conv sg sz x = x) = in_range sg sz x"
  by (auto simp add: in_range_def c_conv_def signed_take_bit_int_eq_self_iff
      take_bit_int_eq_self_iff)

lemma in_range_mono:
  assumes "0 < sz" "sz \<le> sz'" "in_range sg sz x"
  shows "in_range sg sz' x"
proof (cases sg)
  case True
  have p: "(2::int) ^ (8 * sz - 1) \<le> 2 ^ (8 * sz' - 1)"
    using assms by (intro power_increasing) auto
  from assms True have b: "- (2 ^ (8 * sz - 1)) \<le> x \<and> x < 2 ^ (8 * sz - 1)"
    by (simp add: in_range_def)
  have "- (2 ^ (8 * sz' - 1)) \<le> x \<and> x < 2 ^ (8 * sz' - 1)"
    using b p by linarith
  then show ?thesis using True by (simp add: in_range_def)
next
  case False
  have p: "(2::int) ^ (8 * sz) \<le> 2 ^ (8 * sz')"
    using assms by (intro power_increasing) auto
  from assms False have b: "0 \<le> x \<and> x < 2 ^ (8 * sz)"
    by (simp add: in_range_def)
  have "0 \<le> x \<and> x < 2 ^ (8 * sz')"
    using b p by linarith
  then show ?thesis using False by (simp add: in_range_def)
qed

lemma c_conv_minus_one:
  "0 < sz \<Longrightarrow> c_conv sg sz (- 1) = (if sg then - 1 else 2 ^ (8 * sz) - 1)"
  by (simp add: c_conv_def take_bit_minus_one_eq_mask mask_eq_exp_minus_1)

lemma sizeof_Tp_bounds:
  assumes "valid_long L" "valid_itype T"
  shows "0 < size_of T" "0 < sizeof_Tp L T"
  using assms by (auto simp add: valid_long_def valid_itype_def sizeof_Tp_def)

lemma survives_iff_in_range:
  assumes "valid_long L" "valid_itype T"
  shows "(x = c_conv sg (sizeof_Tp L T) (c_conv sg (size_of T) x))
         = (in_range sg (size_of T) x \<and> in_range sg (sizeof_Tp L T) x)"
proof
  assume e: "x = c_conv sg (sizeof_Tp L T) (c_conv sg (size_of T) x)"
  have p: "in_range sg (sizeof_Tp L T) x"
    using c_conv_in_range [OF sizeof_Tp_bounds(2) [OF assms], of sg "c_conv sg (size_of T) x"]
      e by simp
  have "in_range sg (size_of T) x"
  proof (cases "size_of T \<le> sizeof_Tp L T")
    case True
    have "in_range sg (size_of T) (c_conv sg (size_of T) x)"
      using sizeof_Tp_bounds(1) [OF assms] by (rule c_conv_in_range)
    then have "in_range sg (sizeof_Tp L T) (c_conv sg (size_of T) x)"
      using sizeof_Tp_bounds(1) [OF assms] True in_range_mono by blast
    then have "c_conv sg (sizeof_Tp L T) (c_conv sg (size_of T) x) = c_conv sg (size_of T) x"
      using sizeof_Tp_bounds(2) [OF assms] by (simp add: c_conv_id_iff)
    with e have "c_conv sg (size_of T) x = x" by simp
    then show ?thesis
      using sizeof_Tp_bounds(1) [OF assms] by (simp add: c_conv_id_iff)
  next
    case False
    then have "sizeof_Tp L T \<le> size_of T" by simp
    with p show ?thesis
      using sizeof_Tp_bounds(2) [OF assms] in_range_mono by blast
  qed
  with p show "in_range sg (size_of T) x \<and> in_range sg (sizeof_Tp L T) x" by simp
next
  assume r: "in_range sg (size_of T) x \<and> in_range sg (sizeof_Tp L T) x"
  then have "c_conv sg (size_of T) x = x" "c_conv sg (sizeof_Tp L T) x = x"
    using sizeof_Tp_bounds [OF assms] by (simp_all add: c_conv_id_iff)
  then show "x = c_conv sg (sizeof_Tp L T) (c_conv sg (size_of T) x)" by simp
qed

subsection \<open>The integer load\<close>

lemma numeric_load_int_fetch:
  "(if \<not> is_signed T
    then (if size_of T \<le> L then PyLong_AsUnsignedLong L p s
          else PyLong_AsUnsignedLongLong p s)
    else (if size_of T \<le> L then PyLong_AsLong L p s else PyLong_AsLongLong p s))
   = pylong_as (is_signed T) (sizeof_Tp L T) p s"
  by (simp add: PyLong_AsUnsignedLong_def PyLong_AsUnsignedLongLong_def PyLong_AsLong_def
      PyLong_AsLongLong_def sizeof_Tp_def)

lemma numeric_load_int_survivor:
  assumes "valid_long L" "valid_itype T" "long_value s p = Some n"
    and "in_range (is_signed T) (size_of T) n"
    and "in_range (is_signed T) (sizeof_Tp L T) n"
  shows "numeric_load_int L T (Some p) convert s =
     (if n = c_conv (is_signed T) (sizeof_Tp L T) (- 1) \<and> PyErr_Occurred s
      then (None, PyErr_Clear s) else (Some n, s))"
proof -
  have f: "pylong_as (is_signed T) (sizeof_Tp L T) p s = (n, s)"
    using assms(3,5) by (simp add: pylong_as_def)
  have c: "c_conv (is_signed T) (size_of T) n = n"
    using assms(4) sizeof_Tp_bounds(1) [OF assms(1,2)] by (simp add: c_conv_id_iff)
  have k: "n = c_conv (is_signed T) (sizeof_Tp L T) (c_conv (is_signed T) (size_of T) n)"
    using survives_iff_in_range [OF assms(1,2)] assms(4,5) by blast
  have chk: "PyLong_Check s p" using assms(3) by (simp add: PyLong_Check_def)
  show ?thesis
    unfolding numeric_load_int_def numeric_load_int_fetch
    using f c k chk by simp
qed

lemma numeric_load_int_in_range:
  assumes "valid_long L" "valid_itype T" "long_value s p = Some n"
    and "in_range (is_signed T) (size_of T) n"
    and "in_range (is_signed T) (sizeof_Tp L T) n"
    and "err s = None"
  shows "numeric_load_int L T (Some p) convert s = (Some n, s)"
  using numeric_load_int_survivor [OF assms(1-5), of convert] assms(6)
  by (simp add: PyErr_Occurred_def)

lemma numeric_load_int_check_rejects:
  assumes "valid_long L" "valid_itype T" "long_value s p = Some n"
    and "in_range (is_signed T) (sizeof_Tp L T) n"
    and "\<not> in_range (is_signed T) (size_of T) n"
  shows "sizeof_Tp L T \<noteq> size_of T"
    and "numeric_load_int L T (Some p) convert s = (None, s)"
proof -
  have f: "pylong_as (is_signed T) (sizeof_Tp L T) p s = (n, s)"
    using assms(3,4) by (simp add: pylong_as_def)
  have k: "n \<noteq> c_conv (is_signed T) (sizeof_Tp L T) (c_conv (is_signed T) (size_of T) n)"
    using survives_iff_in_range [OF assms(1,2)] assms(5) by blast
  show w: "sizeof_Tp L T \<noteq> size_of T" using assms(4,5) by auto
  have chk: "PyLong_Check s p" using assms(3) by (simp add: PyLong_Check_def)
  show "numeric_load_int L T (Some p) convert s = (None, s)"
    unfolding numeric_load_int_def numeric_load_int_fetch
    using f k w chk by simp
qed

lemma numeric_load_int_out_of_range:
  assumes "valid_long L" "valid_itype T" "long_value s p = Some n"
    and "\<not> (in_range (is_signed T) (size_of T) n \<and> in_range (is_signed T) (sizeof_Tp L T) n)"
  shows "fst (numeric_load_int L T (Some p) convert s) = None"
proof (cases "in_range (is_signed T) (sizeof_Tp L T) n")
  case True
  with assms(4) have "\<not> in_range (is_signed T) (size_of T) n" by simp
  from numeric_load_int_check_rejects(2) [OF assms(1,2,3) True this]
  show ?thesis by simp
next
  case False
  have f: "pylong_as (is_signed T) (sizeof_Tp L T) p s =
      (c_conv (is_signed T) (sizeof_Tp L T) (- 1), PyErr_Set OverflowError s)"
    using assms(3) False by (simp add: pylong_as_def)
  show ?thesis
    unfolding numeric_load_int_def numeric_load_int_fetch
    using f by (simp add: PyErr_Occurred_def PyErr_Set_def)
qed

lemma rt0_simps:
  "heap rt0 3 = None" "err rt0 = None" "avail rt0 = 8" "fresh rt0 = 3"
  by (simp_all add: rt0_def Py_None_def Py_True_def Py_False_def)

lemma valid_examples:
  "valid_long 8" "valid_itype int8_t" "valid_itype uint32_t"
  by (simp_all add: valid_long_def valid_itype_def int8_t_def uint32_t_def)

text \<open>
  C3. Let the foreign object be an integer \<open>n\<close>. If \<open>n\<close> does not survive the conversion
  to \<^verbatim>\<open>T\<close> and back to the intermediate type, load returns false; if it does, load goes on
  to its last test and stores \<open>n\<close> itself (unless \<open>n\<close> is \<open>-1\<close> in the intermediate type
  while an error is pending). Surviving is being in the range of \<^verbatim>\<open>T\<close> and of the
  intermediate type, and a value that the intermediate type holds and \<^verbatim>\<open>T\<close> does not is
  turned down by the comparison alone, in a caster whose two widths differ, with the runtime
  left as it was.
\<close>

theorem numeric_load_narrowing_check:
  assumes "valid_long L" "valid_itype T" "long_value s p = Some n"
  shows "(n \<noteq> c_conv (is_signed T) (sizeof_Tp L T) (c_conv (is_signed T) (size_of T) n) \<longrightarrow>
            fst (numeric_load_int L T (Some p) convert s) = None)
       \<and> (n = c_conv (is_signed T) (sizeof_Tp L T) (c_conv (is_signed T) (size_of T) n) \<longrightarrow>
            numeric_load_int L T (Some p) convert s =
              (if n = c_conv (is_signed T) (sizeof_Tp L T) (- 1) \<and> PyErr_Occurred s
               then (None, PyErr_Clear s) else (Some n, s)))
       \<and> (n = c_conv (is_signed T) (sizeof_Tp L T) (c_conv (is_signed T) (size_of T) n))
            = (in_range (is_signed T) (size_of T) n \<and> in_range (is_signed T) (sizeof_Tp L T) n)
       \<and> (in_range (is_signed T) (sizeof_Tp L T) n \<and> \<not> in_range (is_signed T) (size_of T) n \<longrightarrow>
            sizeof_Tp L T \<noteq> size_of T \<and> numeric_load_int L T (Some p) convert s = (None, s))"
  using survives_iff_in_range [OF assms(1,2), of n "is_signed T"]
    numeric_load_int_out_of_range [OF assms, of convert]
    numeric_load_int_survivor [OF assms, of convert]
    numeric_load_int_check_rejects(1) [OF assms]
    numeric_load_int_check_rejects(2) [OF assms, of convert]
  by blast

theorem numeric_load_narrowing_check_witness:
  "fst (numeric_load_int 8 int8_t (Some 3) False (snd (PyLong_FromLong 300 rt0))) = None
   \<and> numeric_load_int 8 int8_t (Some 3) False (snd (PyLong_FromLong 100 rt0))
       = (Some 100, snd (PyLong_FromLong 100 rt0))"
proof -
  have a: "long_value (snd (PyLong_FromLong 300 rt0)) 3 = Some 300"
    by (simp add: PyLong_FromLong_def py_new_def long_value_def rt0_simps)
  have b: "long_value (snd (PyLong_FromLong 100 rt0)) 3 = Some 100"
    by (simp add: PyLong_FromLong_def py_new_def long_value_def rt0_simps)
  have e: "\<not> PyErr_Occurred (snd (PyLong_FromLong 100 rt0))"
    by (simp add: PyLong_FromLong_def py_new_def PyErr_Occurred_def rt0_simps)
  have r: "\<not> in_range (is_signed int8_t) (size_of int8_t) 300"
      "in_range (is_signed int8_t) (size_of int8_t) 100"
      "in_range (is_signed int8_t) (sizeof_Tp 8 int8_t) 100"
      "100 \<noteq> c_conv (is_signed int8_t) (sizeof_Tp 8 int8_t) (- 1)"
    by (simp_all add: in_range_def int8_t_def sizeof_Tp_def c_conv_minus_one)
  show ?thesis
    using numeric_load_narrowing_check [OF valid_examples(1,2) a, of False]
      numeric_load_narrowing_check [OF valid_examples(1,2) b, of False] e r
    by simp
qed

subsection \<open>Errors of the numeric conversion\<close>

text \<open>
  Called with no error pending, the integer load of a signed type, or of a type at least as
  wide as its intermediate type, leaves no error pending, and neither does the
  floating-point load: an error of the conversion reaches the test that clears it.
\<close>

lemma numeric_load_int_clears_error:
  assumes "valid_long L" "valid_itype T" "err s = None"
    and "is_signed T \<or> sizeof_Tp L T \<le> size_of T"
  shows "err (snd (numeric_load_int L T src convert s)) = None"
proof (cases src)
  case None
  with assms(3) show ?thesis by (simp add: numeric_load_int_def)
next
  case (Some p)
  let ?m = "c_conv (is_signed T) (sizeof_Tp L T) (- 1)"
  have a: "in_range (is_signed T) (sizeof_Tp L T) ?m"
    using sizeof_Tp_bounds(2) [OF assms(1,2)] by (rule c_conv_in_range)
  have b: "in_range (is_signed T) (size_of T) ?m"
  proof (cases "is_signed T")
    case True
    then have "?m = c_conv (is_signed T) (size_of T) (- 1)"
      using sizeof_Tp_bounds [OF assms(1,2)] by (simp add: c_conv_minus_one)
    then show ?thesis
      using c_conv_in_range [OF sizeof_Tp_bounds(1) [OF assms(1,2)], of "is_signed T" "- 1"]
      by simp
  next
    case False
    with assms(4) have "sizeof_Tp L T \<le> size_of T" by simp
    with a show ?thesis
      using sizeof_Tp_bounds(2) [OF assms(1,2)] in_range_mono by blast
  qed
  have m: "c_conv (is_signed T) (sizeof_Tp L T) (c_conv (is_signed T) (size_of T) ?m) = ?m"
    using survives_iff_in_range [OF assms(1,2), of ?m "is_signed T"] a b by simp
  show ?thesis
    using Some assms(3) m
    unfolding numeric_load_int_def numeric_load_int_fetch pylong_as_def
    by (auto simp add: PyErr_Occurred_def PyErr_Clear_def PyErr_Set_def
        split: option.splits)
qed

lemma numeric_load_float_clears_error:
  assumes "err s = None"
  shows "err (snd (numeric_load_float narrow of_long src convert s)) = None"
  using assms
  unfolding numeric_load_float_def PyFloat_AsDouble_def
  by (auto simp add: PyErr_Occurred_def PyErr_Clear_def PyErr_Set_def
      split: option.splits pyval.splits)

text \<open>
  C6 does not hold of the code. For an unsigned type narrower than its intermediate type
  the conversion's error value is the largest intermediate value, which the narrowing
  comparison turns down first: load returns false before the test that would clear the
  error. Here \<^verbatim>\<open>T\<close> is a 32-bit unsigned type on a platform with a 64-bit \<^verbatim>\<open>long\<close>, and
  the foreign object is the integer \<open>-1\<close>: no error is pending before the load, and
  \<open>OverflowError\<close> is pending after it.
\<close>

theorem numeric_load_leaves_error_pending:
  "err (snd (PyLong_FromLong (- 1) rt0)) = None
   \<and> numeric_load_int 8 uint32_t (Some 3) True (snd (PyLong_FromLong (- 1) rt0))
       = (None, PyErr_Set OverflowError (snd (PyLong_FromLong (- 1) rt0)))
   \<and> PyErr_Occurred (snd (numeric_load_int 8 uint32_t (Some 3) True
         (snd (PyLong_FromLong (- 1) rt0))))"
proof -
  let ?s = "snd (PyLong_FromLong (- 1) rt0)"
  have a: "long_value ?s 3 = Some (- 1)"
    by (simp add: PyLong_FromLong_def py_new_def long_value_def rt0_simps)
  have e: "err ?s = None"
    by (simp add: PyLong_FromLong_def py_new_def rt0_simps)
  have f: "pylong_as False 8 3 ?s = (2 ^ 64 - 1, PyErr_Set OverflowError ?s)"
    using a by (simp add: pylong_as_def in_range_def c_conv_minus_one)
  have n: "c_conv False 8 (c_conv False 4 (2 ^ 64 - 1)) \<noteq> 2 ^ 64 - 1"
    using survives_iff_in_range [OF valid_examples(1,3), of "2 ^ 64 - 1" False]
    by (simp add: in_range_def sizeof_Tp_def uint32_t_def)
  have l: "numeric_load_int 8 uint32_t (Some 3) True ?s = (None, PyErr_Set OverflowError ?s)"
    unfolding numeric_load_int_def numeric_load_int_fetch
    using f n by (simp add: uint32_t_def sizeof_Tp_def)
  show ?thesis using e l by (simp add: PyErr_Occurred_def PyErr_Set_def)
qed

subsection \<open>Round trip through the numeric caster\<close>

lemma py_new_ok:
  assumes "0 < avail s"
  shows "py_new v s = (Some (fresh s), snd (py_new v s))"
    and "heap (snd (py_new v s)) (fresh s) = Some v"
    and "err (snd (py_new v s)) = err s"
  using assms by (simp_all add: py_new_def)

lemma numeric_cast_int_eq:
  assumes "valid_long L" "valid_itype T" "in_range (is_signed T) (sizeof_Tp L T) v"
  shows "numeric_cast_int L T v policy parent s = Return (py_new (LongV v) s)"
proof -
  have c: "c_conv (is_signed T) (sizeof_Tp L T) v = v"
    using assms(3) sizeof_Tp_bounds(2) [OF assms(1,2)] by (simp add: c_conv_id_iff)
  show ?thesis
    using c unfolding numeric_cast_int_def sizeof_Tp_def
    by (auto simp add: PyLong_FromLong_def PyLong_FromUnsignedLong_def
        PyLong_FromLongLong_def PyLong_FromUnsignedLongLong_def split: if_splits)
qed

lemma numeric_roundtrip_int:
  assumes "valid_long L" "valid_itype T" "in_range (is_signed T) (size_of T) v"
    and "in_range (is_signed T) (sizeof_Tp L T) v"
    and "err s = None" "0 < avail s"
  shows "\<exists>p s1. numeric_cast_int L T v policy parent s = Return (Some p, s1)
           \<and> numeric_load_int L T (Some p) convert s1 = (Some v, s1)"
proof -
  let ?s1 = "snd (py_new (LongV v) s)"
  have c: "numeric_cast_int L T v policy parent s = Return (Some (fresh s), ?s1)"
    using numeric_cast_int_eq [OF assms(1,2,4)] py_new_ok(1) [OF assms(6)] by simp
  have h: "long_value ?s1 (fresh s) = Some v"
    using py_new_ok(2) [OF assms(6)] by (simp add: long_value_def)
  have e: "err ?s1 = None"
    using py_new_ok(3) [OF assms(6)] assms(5) by simp
  have "numeric_load_int L T (Some (fresh s)) convert ?s1 = (Some v, ?s1)"
    by (rule numeric_load_int_in_range [OF assms(1,2) h assms(3,4) e])
  with c show ?thesis by blast
qed

lemma numeric_roundtrip_float:
  assumes "narrow (widen x) = x" "err s = None" "0 < avail s"
  shows "\<exists>p s1. numeric_cast_float widen x policy parent s = Return (Some p, s1)
           \<and> numeric_load_float narrow of_long (Some p) convert s1 = (Some x, s1)"
proof -
  let ?s1 = "snd (py_new (FloatV (widen x)) s)"
  have c: "numeric_cast_float widen x policy parent s = Return (Some (fresh s), ?s1)"
    using py_new_ok(1) [OF assms(3)]
    by (simp add: numeric_cast_float_def PyFloat_FromDouble_def)
  have h: "heap ?s1 (fresh s) = Some (FloatV (widen x))"
    using py_new_ok(2) [OF assms(3)] by simp
  have e: "err ?s1 = None"
    using py_new_ok(3) [OF assms(3)] assms(2) by simp
  have "numeric_load_float narrow of_long (Some (fresh s)) convert ?s1 = (Some x, ?s1)"
    using h e assms(1)
    by (simp add: numeric_load_float_def PyFloat_Check_def PyFloat_AsDouble_def
        PyErr_Occurred_def)
  with c show ?thesis by blast
qed

text \<open>
  C2. In a runtime with no error pending and memory for one object, the cast of a value
  \<open>v\<close> of an integral type that is in the range of the intermediate type yields a valid
  object, and loading that object with the same caster succeeds and stores \<open>v\<close>, with or
  without conversion allowed. The same holds of a floating-point value that the conversion
  to \<^verbatim>\<open>double\<close> and back reproduces.
\<close>

theorem numeric_roundtrip:
  "(valid_long L \<and> valid_itype T \<and> in_range (is_signed T) (size_of T) v \<and>
    in_range (is_signed T) (sizeof_Tp L T) v \<and> err s = None \<and> 0 < avail s \<longrightarrow>
      (\<exists>p s1. numeric_cast_int L T v policy parent s = Return (Some p, s1)
         \<and> numeric_load_int L T (Some p) convert s1 = (Some v, s1)))
   \<and> (narrow (widen x) = x \<and> err s = None \<and> 0 < avail s \<longrightarrow>
      (\<exists>p s1. numeric_cast_float widen x policy parent s = Return (Some p, s1)
         \<and> numeric_load_float narrow of_long (Some p) convert s1 = (Some x, s1)))"
  using numeric_roundtrip_int [of L T v s policy parent convert]
    numeric_roundtrip_float [of narrow widen x s policy parent of_long convert]
  by blast

theorem numeric_roundtrip_witness:
  "(\<exists>p s1. numeric_cast_int 8 int8_t (- 1) move None rt0 = Return (Some p, s1)
       \<and> numeric_load_int 8 int8_t (Some p) False s1 = (Some (- 1), s1))
   \<and> (\<exists>p s1. numeric_cast_float (\<lambda>d. d) dbl_minus_one move None rt0 = Return (Some p, s1)
       \<and> numeric_load_float (\<lambda>d. d) (\<lambda>n. None) (Some p) False s1 = (Some dbl_minus_one, s1))"
proof -
  have r: "in_range (is_signed int8_t) (size_of int8_t) (- 1)"
      "in_range (is_signed int8_t) (sizeof_Tp 8 int8_t) (- 1)"
    by (simp_all add: in_range_def int8_t_def sizeof_Tp_def)
  show ?thesis
    using numeric_roundtrip [of 8 int8_t "- 1" rt0 move None False "\<lambda>d. d" "\<lambda>d. d"
        dbl_minus_one "\<lambda>n. None"] valid_examples r rt0_simps
    by simp
qed

subsection \<open>Reference counts across a failed pair load\<close>

lemma refcnt_Py_INCREF_fun: "refcnt (Py_INCREF a s) = acquire a (refcnt s)"
  by (simp add: Py_INCREF_def acquire_def)

lemma refcnt_Py_DECREF_fun: "refcnt (Py_DECREF a s) = relinquish a (refcnt s)"
  by (simp add: Py_DECREF_def relinquish_def)

lemma refcnt_PyErr [simp]:
  "refcnt (PyErr_Set e s) = refcnt s" "refcnt (PyErr_Clear s) = refcnt s"
  by (simp_all add: PyErr_Set_def PyErr_Clear_def)

lemma relinquish_acquire [simp]: "relinquish a (acquire a f) = f"
  by (rule ext) (simp add: relinquish_def acquire_def)

lemma relinquish_acquire_commute: "relinquish a (acquire b f) = acquire b (relinquish a f)"
  by (rule ext) (simp add: relinquish_def acquire_def)

lemma refcnt_fold_DECREF: "refcnt (fold Py_DECREF xs s) = fold relinquish xs (refcnt s)"
  by (induction xs arbitrary: s) (simp_all add: refcnt_Py_DECREF_fun)

lemma refcnt_fold_INCREF: "refcnt (fold Py_INCREF xs s) = fold acquire xs (refcnt s)"
  by (induction xs arbitrary: s) (simp_all add: refcnt_Py_INCREF_fun)

lemma fold_relinquish_acquire: "fold relinquish xs (acquire x f) = acquire x (fold relinquish xs f)"
  by (induction xs arbitrary: f) (simp_all add: relinquish_acquire_commute)

lemma PySequence_GetItem_refcnt:
  "PySequence_GetItem seq i s = (None, s1) \<Longrightarrow> refcnt s1 = refcnt s"
  "PySequence_GetItem seq i s = (Some x, s1) \<Longrightarrow> refcnt s1 = acquire x (refcnt s)"
  by (auto simp add: PySequence_GetItem_def refcnt_Py_INCREF_fun
      split: option.splits if_splits)

lemma PySequence_Size_refcnt: "refcnt (snd (PySequence_Size seq s)) = refcnt s"
  by (simp add: PySequence_Size_def split: option.splits)

lemma seq_size_fetch_loop_fails:
  "seq_size_fetch_loop seq n i out s = (None, s') \<Longrightarrow>
     refcnt s' = fold relinquish out (refcnt s)"
proof (induction seq n i out s rule: seq_size_fetch_loop.induct)
  case (1 seq n i out s)
  show ?case
  proof (cases "i < n")
    case False
    with "1.prems" show ?thesis by simp
  next
    case True
    obtain r s1 where g: "PySequence_GetItem seq i s = (r, s1)" by (cases "PySequence_GetItem seq i s")
    show ?thesis
    proof (cases r)
      case None
      with "1.prems" True g have "s' = fold Py_DECREF out s1" by simp
      then show ?thesis
        using PySequence_GetItem_refcnt(1) [of seq i s s1] g None
        by (simp add: refcnt_fold_DECREF)
    next
      case (Some x)
      with "1.prems" True g
      have "seq_size_fetch_loop seq n (Suc i) (out @ [x]) s1 = (None, s')" by simp
      then have "refcnt s' = fold relinquish (out @ [x]) (refcnt s1)"
        using "1.IH" [OF True g [symmetric, unfolded Some] ] Some g by simp
      then show ?thesis
        using PySequence_GetItem_refcnt(2) [of seq i s x s1] g Some
        by (simp add: fold_relinquish_acquire)
    qed
  qed
qed

lemma seq_size_fetch_loop_succeeds:
  "seq_size_fetch_loop seq n i out s = (Some outs, s') \<Longrightarrow>
     \<exists>new. outs = out @ new \<and> length new = n - i \<and> refcnt s' = fold acquire new (refcnt s)"
proof (induction seq n i out s rule: seq_size_fetch_loop.induct)
  case (1 seq n i out s)
  show ?case
  proof (cases "i < n")
    case False
    with "1.prems" show ?thesis by simp
  next
    case True
    obtain r s1 where g: "PySequence_GetItem seq i s = (r, s1)" by (cases "PySequence_GetItem seq i s")
    show ?thesis
    proof (cases r)
      case None
      with "1.prems" True g show ?thesis by simp
    next
      case (Some x)
      with "1.prems" True g
      have "seq_size_fetch_loop seq n (Suc i) (out @ [x]) s1 = (Some outs, s')" by simp
      then obtain new where n: "outs = (out @ [x]) @ new" "length new = n - Suc i"
          "refcnt s' = fold acquire new (refcnt s1)"
        using "1.IH" [OF True g [symmetric, unfolded Some] ] Some g by auto
      have "refcnt s1 = acquire x (refcnt s)"
        using PySequence_GetItem_refcnt(2) [of seq i s x s1] g Some by simp
      with n True have "outs = out @ (x # new) \<and> length (x # new) = n - i
          \<and> refcnt s' = fold acquire (x # new) (refcnt s)" by simp
      then show ?thesis by blast
    qed
  qed
qed

lemma seq_size_fetch_fails:
  assumes "seq_size_fetch seq n s = (None, s')"
  shows "refcnt s' = refcnt s"
proof -
  obtain rv s0 where z: "PySequence_Size seq s = (rv, s0)" by (cases "PySequence_Size seq s")
  have r0: "refcnt s0 = refcnt s" using PySequence_Size_refcnt [of seq s] z by simp
  let ?s1 = "if rv = - 1 then PyErr_Clear s0 else s0"
  have r1: "refcnt ?s1 = refcnt s" using r0 by simp
  show ?thesis
  proof (cases "rv = int n")
    case False
    with assms z have "s' = ?s1" by (simp add: seq_size_fetch_def)
    with r1 show ?thesis by simp
  next
    case True
    with assms z have "seq_size_fetch_loop seq n 0 [] ?s1 = (None, s')"
      by (simp add: seq_size_fetch_def)
    from seq_size_fetch_loop_fails [OF this] r1 show ?thesis by simp
  qed
qed

lemma seq_size_fetch_succeeds:
  assumes "seq_size_fetch seq n s = (Some out, s')"
  shows "length out = n \<and> refcnt s' = fold acquire out (refcnt s)"
proof -
  obtain rv s0 where z: "PySequence_Size seq s = (rv, s0)" by (cases "PySequence_Size seq s")
  have r0: "refcnt s0 = refcnt s" using PySequence_Size_refcnt [of seq s] z by simp
  let ?s1 = "if rv = - 1 then PyErr_Clear s0 else s0"
  have r1: "refcnt ?s1 = refcnt s" using r0 by simp
  have "rv = int n" using assms z by (auto simp add: seq_size_fetch_def split: if_splits)
  with assms z have "seq_size_fetch_loop seq n 0 [] ?s1 = (Some out, s')"
    by (simp add: seq_size_fetch_def)
  from seq_size_fetch_loop_succeeds [OF this] r1 show ?thesis by auto
qed

lemma release_both:
  "relinquish b (relinquish a (acquire b (acquire a f))) = f"
  by (rule ext) (simp add: relinquish_def acquire_def)

lemma pair_load_fails:
  assumes k1: "keeps_refcounts c1_load" and k2: "keeps_refcounts c2_load"
    and f: "pair_load c1_load c2_load src convert s = (None, s')"
  shows "refcnt s' = refcnt s"
proof (cases "seq_size_fetch src 2 s")
  case (Pair r s0)
  show ?thesis
  proof (cases r)
    case None
    with f Pair have "s' = s0" by (simp add: pair_load_def)
    with seq_size_fetch_fails [of src 2 s s0] Pair None show ?thesis by simp
  next
    case (Some out)
    from seq_size_fetch_succeeds [of src 2 s out s0] Pair Some
    have l: "length out = 2" and r0: "refcnt s0 = fold acquire out (refcnt s)" by simp_all
    from l obtain a b where ab: "out = [a, b]"
      by (cases out; cases "tl out") auto
    have r0': "refcnt s0 = acquire b (acquire a (refcnt s))" using r0 ab by simp
    obtain w1 s1 where c1: "c1_load (Some a) convert s0 = (w1, s1)"
      by (cases "c1_load (Some a) convert s0")
    have r1: "refcnt s1 = refcnt s0"
      using k1 c1 unfolding keeps_refcounts_def by (metis snd_conv)
    show ?thesis
    proof (cases w1)
      case None
      with f Pair Some ab c1 have "s' = Py_DECREF b (Py_DECREF a s1)"
        by (simp add: pair_load_def)
      then show ?thesis
        using r1 r0' by (simp add: refcnt_Py_DECREF_fun release_both)
    next
      case (Some v1)
      obtain w2 s2 where c2: "c2_load (Some b) convert s1 = (w2, s2)"
        by (cases "c2_load (Some b) convert s1")
      have r2: "refcnt s2 = refcnt s1"
        using k2 c2 unfolding keeps_refcounts_def by (metis snd_conv)
      from f Pair \<open>r = Some out\<close> ab c1 Some c2
      have "w2 = None \<and> s' = Py_DECREF b (Py_DECREF a s2)"
        by (cases w2) (simp_all add: pair_load_def)
      then show ?thesis
        using r2 r1 r0' by (simp add: refcnt_Py_DECREF_fun release_both)
    qed
  qed
qed

text \<open>
  The path of the pair load that returns true keeps the two references it fetched: with
  component loads that leave the counts alone, each item has one more reference after the
  load than before.
\<close>

lemma pair_load_succeeds:
  assumes k1: "keeps_refcounts c1_load" and k2: "keeps_refcounts c2_load"
    and f: "pair_load c1_load c2_load src convert s = (Some v, s')"
  shows "\<exists>a b. fst (seq_size_fetch src 2 s) = Some [a, b]
           \<and> refcnt s' = acquire b (acquire a (refcnt s))"
proof (cases "seq_size_fetch src 2 s")
  case (Pair r s0)
  show ?thesis
  proof (cases r)
    case None
    with f Pair show ?thesis by (simp add: pair_load_def)
  next
    case (Some out)
    from seq_size_fetch_succeeds [of src 2 s out s0] Pair Some
    have l: "length out = 2" and r0: "refcnt s0 = fold acquire out (refcnt s)" by simp_all
    from l obtain a b where ab: "out = [a, b]"
      by (cases out; cases "tl out") auto
    have r0': "refcnt s0 = acquire b (acquire a (refcnt s))" using r0 ab by simp
    obtain w1 s1 where c1: "c1_load (Some a) convert s0 = (w1, s1)"
      by (cases "c1_load (Some a) convert s0")
    have r1: "refcnt s1 = refcnt s0"
      using k1 c1 unfolding keeps_refcounts_def by (metis snd_conv)
    obtain w2 s2 where c2: "c2_load (Some b) convert s1 = (w2, s2)"
      by (cases "c2_load (Some b) convert s1")
    have r2: "refcnt s2 = refcnt s1"
      using k2 c2 unfolding keeps_refcounts_def by (metis snd_conv)
    from f Pair Some ab c1 c2 have "s' = s2"
      by (cases w1; cases w2) (simp_all add: pair_load_def)
    with r2 r1 r0' Pair Some ab show ?thesis by simp
  qed
qed

lemma numeric_load_int_keeps_refcounts: "keeps_refcounts (numeric_load_int L T)"
  unfolding keeps_refcounts_def numeric_load_int_def numeric_load_int_fetch pylong_as_def
  by (auto split: option.splits)

lemma numeric_load_float_keeps_refcounts: "keeps_refcounts (numeric_load_float narrow of_long)"
  unfolding keeps_refcounts_def numeric_load_float_def PyFloat_AsDouble_def
  by (auto split: option.splits pyval.splits)

lemma bool_load_keeps_refcounts: "keeps_refcounts bool_load"
  by (simp add: keeps_refcounts_def bool_load_def)

lemma nullptr_load_keeps_refcounts: "keeps_refcounts nullptr_load"
  by (simp add: keeps_refcounts_def nullptr_load_def)

lemma rt_pair_runs:
  "fst (seq_size_fetch (Some 5) 2 rt_pair) = None"
  "fst (seq_size_fetch (Some 4) 2 rt_pair) = Some [3, Py_None]"
  "fst (pair_load (numeric_load_int 8 int8_t) (numeric_load_int 8 int8_t) (Some 4) False
     rt_pair) = None"
  by code_simp+

text \<open>
  C4. When \<^verbatim>\<open>seq_size_fetch\<close> returns false, at the size test or at any item \<open>i\<close>, every
  reference count is what it was before the call: the references fetched before \<open>i\<close> have
  been released. When it returns true it has acquired one reference per item. When the
  pair caster's load returns false, with component loads that leave the counts alone
  (as the numeric, boolean and null loads do), every reference count is what it was before
  the call: whether the fetch failed or a component did not convert after both items were
  fetched, no fetched reference is left behind.
\<close>

theorem pair_load_failure_releases:
  "(seq_size_fetch seq n s = (None, s') \<longrightarrow> refcnt s' = refcnt s)
   \<and> (seq_size_fetch seq n s = (Some out, s') \<longrightarrow>
        length out = n \<and> refcnt s' = refcnt (fold Py_INCREF out s))
   \<and> (keeps_refcounts c1_load \<and> keeps_refcounts c2_load \<and>
      pair_load c1_load c2_load src convert s = (None, s'') \<longrightarrow> refcnt s'' = refcnt s)"
  using seq_size_fetch_fails [of seq n s s'] seq_size_fetch_succeeds [of seq n s out s']
    pair_load_fails [of c1_load c2_load src convert s s'']
  by (simp add: refcnt_fold_INCREF)

theorem pair_load_failure_releases_witness:
  "fst (seq_size_fetch (Some 5) 2 rt_pair) = None
   \<and> refcnt (snd (seq_size_fetch (Some 5) 2 rt_pair)) = refcnt rt_pair
   \<and> fst (seq_size_fetch (Some 4) 2 rt_pair) = Some [3, Py_None]
   \<and> refcnt (snd (seq_size_fetch (Some 4) 2 rt_pair))
       = refcnt (Py_INCREF Py_None (Py_INCREF 3 rt_pair))
   \<and> fst (pair_load (numeric_load_int 8 int8_t) (numeric_load_int 8 int8_t) (Some 4) False
         rt_pair) = None
   \<and> refcnt (snd (pair_load (numeric_load_int 8 int8_t) (numeric_load_int 8 int8_t) (Some 4)
         False rt_pair)) = refcnt rt_pair"
proof -
  let ?f5 = "seq_size_fetch (Some 5) 2 rt_pair"
  let ?f4 = "seq_size_fetch (Some 4) 2 rt_pair"
  let ?ld = "numeric_load_int 8 int8_t"
  let ?pl = "pair_load ?ld ?ld (Some 4) False rt_pair"
  have a: "?f5 = (None, snd ?f5)"
    using rt_pair_runs(1) by (metis prod.collapse)
  have b: "?f4 = (Some [3, Py_None], snd ?f4)"
    using rt_pair_runs(2) by (metis prod.collapse)
  have c: "?pl = (None, snd ?pl)"
    using rt_pair_runs(3) by (metis prod.collapse)
  have k: "keeps_refcounts ?ld" by (rule numeric_load_int_keeps_refcounts)
  show ?thesis
    using pair_load_failure_releases [of "Some 5" 2 rt_pair "snd ?f5" "[]" ?ld ?ld "Some 4"
        False "snd ?pl"]
      pair_load_failure_releases [of "Some 4" 2 rt_pair "snd ?f4" "[3, Py_None]" ?ld ?ld
        "Some 4" False "snd ?pl"]
      a b c k rt_pair_runs
    by simp
qed

subsection \<open>The pair cast\<close>

lemma replicate_two: "replicate 2 x = [x, x]"
  by (simp add: numeral_2_eq_2)

lemma pair_cast_first_fails:
  assumes "c1_cast (fst v) policy parent s = Return (None, s1)"
  shows "pair_cast c1_cast c2_cast v policy parent s = Return (None, s1)"
  using assms
  by (simp add: pair_cast_def steal_def is_valid_def object_dtor_def Py_XDECREF_def)

lemma pair_cast_second_fails:
  assumes "c1_cast (fst v) policy parent s = Return (Some a, s1)"
    and "c2_cast (snd v) policy parent s1 = Return (None, s2)"
  shows "pair_cast c1_cast c2_cast v policy parent s = Return (None, Py_DECREF a s2)"
  using assms
  by (simp add: pair_cast_def steal_def is_valid_def object_dtor_def Py_XDECREF_def)

lemma pair_cast_builds:
  assumes "c1_cast (fst v) policy parent s = Return (Some a, s1)"
    and "c2_cast (snd v) policy parent s1 = Return (Some b, s2)"
    and "0 < avail s2"
  shows "\<exists>s3. pair_cast c1_cast c2_cast v policy parent s = Return (Some (fresh s2), s3)
           \<and> heap s3 (fresh s2) = Some (TupleV [Some a, Some b])
           \<and> (\<forall>q. q \<noteq> fresh s2 \<longrightarrow> heap s3 q = heap s2 q)
           \<and> refcnt s3 = (refcnt s2)(fresh s2 := 1)"
  using assms
  by (simp add: pair_cast_def steal_def is_valid_def release_def PyTuple_New_def py_new_def
      PyTuple_SET_ITEM_def replicate_two)

lemma pair_cast_valid_only_if:
  assumes "pair_cast c1_cast c2_cast v policy parent s = Return (Some r, s')"
  shows "\<exists>a s1 b s2. c1_cast (fst v) policy parent s = Return (Some a, s1)
           \<and> c2_cast (snd v) policy parent s1 = Return (Some b, s2)
           \<and> heap s' r = Some (TupleV [Some a, Some b])"
  using assms
  by (auto simp add: pair_cast_def steal_def is_valid_def release_def PyTuple_New_def
      py_new_def PyTuple_SET_ITEM_def object_dtor_def replicate_two
      split: outcome.splits prod.splits option.splits if_splits)

lemma int8_cast:
  "numeric_cast_int 8 int8_t 3 policy parent s = Return (py_new (LongV 3) s)"
  "numeric_cast_int 8 int8_t 4 policy parent s = Return (py_new (LongV 4) s)"
  by (rule numeric_cast_int_eq [OF valid_examples(1,2)],
      simp add: in_range_def int8_t_def sizeof_Tp_def)+

text \<open>
  C7. If the cast of the first component returns an invalid handle, so does the pair's
  cast, in the runtime the component left. If the first succeeds and the second returns an
  invalid handle, the pair's cast returns an invalid handle after releasing the first
  object; no tuple exists in either case. If both succeed and the tuple can be allocated,
  the result is a new tuple of exactly the two objects, in order. A valid result is that
  tuple and nothing else: whenever the cast returns a valid handle, both components were
  cast to valid objects.
\<close>

theorem pair_cast_all_or_nothing:
  "(c1_cast (fst v) policy parent s = Return (None, s1) \<longrightarrow>
      pair_cast c1_cast c2_cast v policy parent s = Return (None, s1))
   \<and> (c1_cast (fst v) policy parent s = Return (Some a, s1) \<and>
      c2_cast (snd v) policy parent s1 = Return (None, s2) \<longrightarrow>
      pair_cast c1_cast c2_cast v policy parent s = Return (None, Py_DECREF a s2))
   \<and> (c1_cast (fst v) policy parent s = Return (Some a, s1) \<and>
      c2_cast (snd v) policy parent s1 = Return (Some b, s2) \<and> 0 < avail s2 \<longrightarrow>
      (\<exists>s3. pair_cast c1_cast c2_cast v policy parent s = Return (Some (fresh s2), s3)
         \<and> heap s3 (fresh s2) = Some (TupleV [Some a, Some b])
         \<and> (\<forall>q. q \<noteq> fresh s2 \<longrightarrow> heap s3 q = heap s2 q)
         \<and> refcnt s3 = (refcnt s2)(fresh s2 := 1)))
   \<and> (pair_cast c1_cast c2_cast v policy parent s = Return (Some r, s') \<longrightarrow>
      (\<exists>a s1 b s2. c1_cast (fst v) policy parent s = Return (Some a, s1)
         \<and> c2_cast (snd v) policy parent s1 = Return (Some b, s2)
         \<and> heap s' r = Some (TupleV [Some a, Some b])))"
  using pair_cast_first_fails [of c1_cast v policy parent s s1 c2_cast]
    pair_cast_second_fails [of c1_cast v policy parent s a s1 c2_cast s2]
    pair_cast_builds [of c1_cast v policy parent s a s1 c2_cast b s2]
    pair_cast_valid_only_if [of c1_cast c2_cast v policy parent s r s']
  by blast

theorem pair_cast_all_or_nothing_witness:
  "(\<exists>s. pair_cast (numeric_cast_int 8 int8_t) (numeric_cast_int 8 int8_t) (3, 4) move None
         (rt0\<lparr>avail := 0\<rparr>) = Return (None, s))
   \<and> (\<exists>s. pair_cast (numeric_cast_int 8 int8_t) (numeric_cast_int 8 int8_t) (3, 4) move None
         (rt0\<lparr>avail := 1\<rparr>) = Return (None, s))
   \<and> (\<exists>s. pair_cast (numeric_cast_int 8 int8_t) (numeric_cast_int 8 int8_t) (3, 4) move None
         rt0 = Return (Some 5, s) \<and> heap s 5 = Some (TupleV [Some 3, Some 4]))"
proof -
  let ?C = "numeric_cast_int 8 int8_t"
  let ?e0 = "rt0\<lparr>avail := 0\<rparr>"
  let ?e1 = "rt0\<lparr>avail := 1\<rparr>"
  let ?a1 = "snd (py_new (LongV 3) ?e1)"
  let ?b1 = "snd (py_new (LongV 3) rt0)"
  let ?b2 = "snd (py_new (LongV 4) ?b1)"
  have x0: "?C (fst (3, 4)) move None ?e0 = Return (None, PyErr_Set MemoryError ?e0)"
    by (simp add: int8_cast py_new_def)
  have x1: "?C (fst (3, 4)) move None ?e1 = Return (Some 3, ?a1)"
    by (simp add: int8_cast py_new_def rt0_simps)
  have x2: "?C (snd (3, 4)) move None ?a1 = Return (None, PyErr_Set MemoryError ?a1)"
    by (simp add: int8_cast py_new_def)
  have y1: "?C (fst (3, 4)) move None rt0 = Return (Some 3, ?b1)"
    by (simp add: int8_cast py_new_def rt0_simps)
  have y2: "?C (snd (3, 4)) move None ?b1 = Return (Some 4, ?b2)"
    by (simp add: int8_cast py_new_def rt0_simps)
  have y3: "0 < avail ?b2" "fresh ?b2 = 5"
    by (simp_all add: py_new_def rt0_simps)
  have p0: "pair_cast ?C ?C (3, 4) move None ?e0 = Return (None, PyErr_Set MemoryError ?e0)"
    using pair_cast_all_or_nothing [where ?c1_cast = ?C and ?c2_cast = ?C and v = "(3, 4)"
        and policy = move and parent = None and s = ?e0
        and ?s1.0 = "PyErr_Set MemoryError ?e0"] x0
    by blast
  have p1: "pair_cast ?C ?C (3, 4) move None ?e1
      = Return (None, Py_DECREF 3 (PyErr_Set MemoryError ?a1))"
    using pair_cast_all_or_nothing [where ?c1_cast = ?C and ?c2_cast = ?C and v = "(3, 4)"
        and policy = move and parent = None and s = ?e1 and a = 3
        and ?s1.0 = ?a1 and ?s2.0 = "PyErr_Set MemoryError ?a1"] x1 x2
    by blast
  have p2: "\<exists>s. pair_cast ?C ?C (3, 4) move None rt0 = Return (Some 5, s)
      \<and> heap s 5 = Some (TupleV [Some 3, Some 4])"
    using pair_cast_all_or_nothing [where ?c1_cast = ?C and ?c2_cast = ?C and v = "(3, 4)"
        and policy = move and parent = None and s = rt0 and a = 3 and b = 4
        and ?s1.0 = ?b1 and ?s2.0 = ?b2 and r = 5 and s' = rt0] y1 y2 y3
    by simp blast
  show ?thesis using p0 p1 p2 by blast
qed

subsection \<open>Formatting of raised messages\<close>

lemma c_str_terminated: "c_str (out @ [0]) = c_str out"
  using takeWhile_tail [of "\<lambda>c. c \<noteq> 0" "0::8 word" out "[]"] by (simp add: c_str_def)

lemma c_str_no_nul: "0 \<notin> set out \<Longrightarrow> c_str out = out"
  by (auto simp add: c_str_def takeWhile_eq_all_conv)

lemma size_of_length:
  assumes "length out \<le> INT_MAX"
  shows "((word_of_int (int (length out)) :: 64 word) < 512) = (length out < 512)"
    and "unat (word_of_int (int (length out)) + 1 :: 64 word) = Suc (length out)"
proof -
  have b: "length out < 2 ^ 64" "length out + 1 < 2 ^ 64"
    using assms by (simp_all add: INT_MAX_def)
  show "((word_of_int (int (length out)) :: 64 word) < 512) = (length out < 512)"
    using b(1) by (simp add: word_less_nat_alt unsigned_of_nat take_bit_nat_eq_self)
  have "(word_of_int (int (length out)) + 1 :: 64 word) = of_nat (length out + 1)"
    by simp
  then show "unat (word_of_int (int (length out)) + 1 :: 64 word) = Suc (length out)"
    using b(2) by (simp only: unsigned_of_nat) (simp add: take_bit_nat_eq_self)
qed

lemma vsnprintf_fits:
  assumes "length out \<le> INT_MAX" "length out < n" "n \<le> INT_MAX"
  shows "vsnprintf n out = (Some (out @ [0]), int (length out))"
  using assms by (simp add: vsnprintf_def)

lemma raise_short:
  assumes "length out < 512"
  shows "raise out m = Throw (Runtime_error (c_str out))"
proof -
  have l: "length out \<le> INT_MAX" using assms by (simp add: INT_MAX_def)
  have v: "vsnprintf 512 out = (Some (out @ [0]), int (length out))"
    using assms by (intro vsnprintf_fits) (simp_all add: INT_MAX_def)
  show ?thesis
    using size_of_length(1) [OF l] assms
    by (simp add: raise_def v throw_runtime_error_def c_str_terminated)
qed

lemma raise_long:
  assumes "512 \<le> length out" "length out < INT_MAX"
  shows "raise out True = Throw (Runtime_error (c_str out))"
proof -
  have l: "length out \<le> INT_MAX" using assms by simp
  have v: "vsnprintf 512 out = (Some (take 511 out @ [0]), int (length out))"
    using l by (simp add: vsnprintf_def INT_MAX_def)
  have w: "vsnprintf (Suc (length out)) out = (Some (out @ [0]), int (length out))"
    using assms by (intro vsnprintf_fits) simp_all
  show ?thesis
    using size_of_length [OF l] assms(1)
    by (simp add: raise_def v w throw_runtime_error_def c_str_terminated)
qed

lemma raise_long_no_memory:
  assumes "512 \<le> length out"
  shows "raise out False = Abort ''nb::detail::raise(): out of memory!''"
proof (cases "length out \<le> INT_MAX")
  case True
  have v: "vsnprintf 512 out = (Some (take 511 out @ [0]), int (length out))"
    using True by (simp add: vsnprintf_def INT_MAX_def)
  show ?thesis
    using size_of_length(1) [OF True] assms by (simp add: raise_def v)
next
  case False
  then have v: "vsnprintf 512 out = (None, - 1)" by (simp add: vsnprintf_def)
  show ?thesis by (simp add: raise_def v)
qed

text \<open>
  From \<^verbatim>\<open>INT_MAX\<close> bytes on the second buffer is never filled: either the length cannot be
  returned, the size wraps around to zero and nothing is stored, or the buffer size itself
  is above \<^verbatim>\<open>INT_MAX\<close>.
\<close>

lemma raise_beyond_int_max:
  assumes "INT_MAX \<le> length out"
  shows "raise out True = Undefined"
proof (cases "length out = INT_MAX")
  case True
  then have l: "length out \<le> INT_MAX" by simp
  have v: "vsnprintf 512 out = (Some (take 511 out @ [0]), int (length out))"
    using l by (simp add: vsnprintf_def INT_MAX_def)
  have w: "vsnprintf (Suc (length out)) out = (None, - 1)"
    using True by (simp add: vsnprintf_def)
  have g: "\<not> length out < 512"
    using True by (simp add: INT_MAX_def)
  show ?thesis
    using size_of_length [OF l] g
    by (simp add: raise_def v w throw_runtime_error_def)
next
  case False
  with assms have "INT_MAX < length out" by simp
  then have v: "vsnprintf n out = (None, - 1)" for n by (simp add: vsnprintf_def)
  show ?thesis by (simp add: raise_def v throw_runtime_error_def)
qed

text \<open>
  C9, as stated, fails: for a text of 512 bytes whose heap buffer cannot be allocated,
  \<^verbatim>\<open>raise\<close> writes a diagnostic and aborts the process; no failure is raised and no
  message is carried.
\<close>

theorem raise_out_of_memory_counterexample:
  "length (replicate 512 (65::8 word)) = 512
   \<and> (raise (replicate 512 65) False :: unit outcome)
       = Abort ''nb::detail::raise(): out of memory!''
   \<and> (raise (replicate 512 65) False :: unit outcome)
       \<noteq> Throw (Runtime_error (replicate 512 65))"
proof -
  have e: "(raise (replicate 512 65) False :: unit outcome)
      = Abort ''nb::detail::raise(): out of memory!''"
    by (rule raise_long_no_memory) simp
  show ?thesis by (simp add: e)
qed

text \<open>
  C9, amended. A text shorter than the 512-byte stack buffer is thrown from that buffer.
  A text of at least 512 and fewer than \<^verbatim>\<open>INT_MAX\<close> bytes does not fit: when the heap
  buffer is allocated, the failure thrown carries the text formatted again into it; when
  the allocation fails, the process aborts after a diagnostic. A message thrown is the
  whole text read as a C string, which is the text itself, byte for byte, when it holds no
  zero byte.
\<close>

theorem raise_carries_message:
  "(length out < 512 \<longrightarrow> raise out malloc_ok = Throw (Runtime_error (c_str out)))
   \<and> (512 \<le> length out \<and> length out < INT_MAX \<longrightarrow>
        raise out True = Throw (Runtime_error (c_str out)))
   \<and> (512 \<le> length out \<and> length out < INT_MAX \<longrightarrow>
        raise out False = Abort ''nb::detail::raise(): out of memory!'')
   \<and> (0 \<notin> set out \<longrightarrow> c_str out = out)"
  using raise_short [of out malloc_ok] raise_long [of out] raise_long_no_memory [of out]
    c_str_no_nul [of out]
  by blast

theorem raise_carries_message_witness:
  "(raise (replicate 600 65) True :: unit outcome) = Throw (Runtime_error (replicate 600 65))
   \<and> (raise (replicate 600 65) False :: unit outcome)
       = Abort ''nb::detail::raise(): out of memory!''
   \<and> (raise (bytes ''nanobind'') False :: unit outcome)
       = Throw (Runtime_error (bytes ''nanobind''))"
proof -
  have a: "(0::8 word) \<notin> set (replicate 600 65)" by simp
  have b: "(0::8 word) \<notin> set (bytes ''nanobind'')" by (simp add: bytes_def)
  have c: "length (bytes ''nanobind'') < 512" by (simp add: bytes_def)
  have d: "512 \<le> length (replicate 600 (65::8 word))"
      "length (replicate 600 (65::8 word)) < INT_MAX"
    by (simp_all add: INT_MAX_def)
  have "(raise (replicate 600 65) True :: unit outcome)
        = Throw (Runtime_error (c_str (replicate 600 65)))"
      "(raise (replicate 600 65) False :: unit outcome)
        = Abort ''nb::detail::raise(): out of memory!''"
      "c_str (replicate 600 (65::8 word)) = replicate 600 65"
    using raise_carries_message [of "replicate 600 65" True] a d by blast+
  moreover
  have "(raise (bytes ''nanobind'') False :: unit outcome)
        = Throw (Runtime_error (c_str (bytes ''nanobind'')))"
      "c_str (bytes ''nanobind'') = bytes ''nanobind''"
    using raise_carries_message [of "bytes ''nanobind''" False] b c by blast+
  ultimately show ?thesis by simp
qed

subsection \<open>Failures of the wrapped operations\<close>






























end
